theory Spec2Isabelle
  imports Complex_Main
begin

section \<open>JavaScript string primitives used by the helpers\<close>

text \<open>
  Strings are character lists. \<open>indexOf\<close> returns the position of the first occurrence
  of a character or \<open>-1\<close>; \<open>substring\<close> clamps both bounds to the string and swaps them
  when the first exceeds the second; \<open>split\<close> cuts at every separator and always returns
  at least one piece; indexing an array out of range yields \<open>undefined\<close>, here \<open>None\<close>.
\<close>

fun indexOf :: "string \<Rightarrow> char \<Rightarrow> int" where
  "indexOf [] c = - 1"
| "indexOf (x # xs) c =
     (if x = c then 0
      else (let r = indexOf xs c in if r < 0 then - 1 else r + 1))"

definition substring :: "string \<Rightarrow> int \<Rightarrow> int \<Rightarrow> string" where
  "substring s start finish =
     (let n = int (length s);
          a = max 0 (min start n);
          b = max 0 (min finish n);
          lo = min a b;
          hi = max a b
      in take (nat (hi - lo)) (drop (nat lo) s))"

fun split_js :: "char \<Rightarrow> string \<Rightarrow> string list" where
  "split_js sep [] = [[]]"
| "split_js sep (c # cs) =
     (if c = sep then [] # split_js sep cs
      else (case split_js sep cs of
              [] \<Rightarrow> [[c]]
            | p # ps \<Rightarrow> (c # p) # ps))"

definition index_js :: "'a list \<Rightarrow> nat \<Rightarrow> 'a option" where
  "index_js xs i = (if i < length xs then Some (xs ! i) else None)"

section \<open>The image helpers\<close>

text \<open>
  Source: \<^verbatim>\<open>src/utils/imageHelpers.ts\<close>, lines 10 to 16.
  \<open>getBase64Data\<close> is \<open>dataUrl.split(',')[1]\<close>; the result is \<open>undefined\<close> when the
  string holds no comma. \<open>getMimeType\<close> is
  \<open>dataUrl.substring(dataUrl.indexOf(':') + 1, dataUrl.indexOf(';'))\<close>.
\<close>

definition getBase64Data :: "string \<Rightarrow> string option" where
  "getBase64Data dataUrl = index_js (split_js CHR '','' dataUrl) 1"

definition getMimeType :: "string \<Rightarrow> string" where
  "getMimeType dataUrl =
     substring dataUrl (indexOf dataUrl CHR '':'' + 1) (indexOf dataUrl CHR '';'')"

text \<open>The data URL a mime type and a payload are assembled into.\<close>

definition dataUrlOf :: "string \<Rightarrow> string \<Rightarrow> string" where
  "dataUrlOf mimeType payload = ''data:'' @ mimeType @ '';base64,'' @ payload"

text \<open>The base64 alphabet, with padding.\<close>

definition base64_alphabet :: string where
  "base64_alphabet =
     ''ABCDEFGHIJKLMNOPQRSTUVWXYZabcdefghijklmnopqrstuvwxyz0123456789+/=''"

definition base64_char :: "char \<Rightarrow> bool" where
  "base64_char c = (c \<in> set base64_alphabet)"

definition base64_payload :: "string \<Rightarrow> bool" where
  "base64_payload d = list_all base64_char d"

section \<open>The retouch service\<close>

text \<open>
  Source: \<open>processFaceImage\<close>, in \<^verbatim>\<open>src/components/Header.tsx\<close>, lines 39 to 89.
  A thrown value carries an optional \<open>message\<close>. The remote call either rejects with
  such a value or resolves to a response, whose \<open>candidates\<close> may be missing; a
  candidate's \<open>content.parts\<close> may be missing too, and reading it then raises a
  \<open>TypeError\<close>, whose text is chosen by the JavaScript engine.
\<close>

datatype js_error = Thrown (message: "string option")

datatype blob = Blob (data: "string option")

datatype part = Part (inlineData: "blob option")

datatype candidate = Candidate (parts: "part list option")

datatype response = Response (candidates: "candidate list option")

datatype gen_result = Rejects js_error | Resolves response

definition typeErrorMessage :: string where
  "typeErrorMessage = ''Cannot read properties of undefined''"

definition noImageMessage :: string where
  "noImageMessage = ''No image data returned from the model.''"

text \<open>
  The loop over the parts of the first candidate: the first part whose
  \<open>inlineData.data\<close> is a non-empty string is returned.
\<close>

fun firstInlineData :: "part list \<Rightarrow> string option" where
  "firstInlineData [] = None"
| "firstInlineData (p # ps) =
     (case inlineData p of
        Some (Blob (Some d)) \<Rightarrow> (if d \<noteq> [] then Some d else firstInlineData ps)
      | _ \<Rightarrow> firstInlineData ps)"

text \<open>
  \<open>processFaceImage\<close>: the remote call is the parameter \<open>generateContent\<close>, applied to
  the payload and the mime type. The \<open>catch\<close> block logs and rethrows, so every failure
  leaves the function as a thrown value (\<open>Inl\<close>).
\<close>

definition processFaceImage ::
  "(string option \<Rightarrow> string \<Rightarrow> gen_result) \<Rightarrow> string option \<Rightarrow> string \<Rightarrow> js_error + string"
where
  "processFaceImage generateContent base64Image mimeType =
     (case generateContent base64Image mimeType of
        Rejects e \<Rightarrow> Inl e
      | Resolves r \<Rightarrow>
          (case candidates r of
             None \<Rightarrow> Inl (Thrown (Some noImageMessage))
           | Some [] \<Rightarrow> Inl (Thrown (Some noImageMessage))
           | Some (c # _) \<Rightarrow>
               (case parts c of
                  None \<Rightarrow> Inl (Thrown (Some typeErrorMessage))
                | Some ps \<Rightarrow>
                    (case firstInlineData ps of
                       Some d \<Rightarrow> Inr d
                     | None \<Rightarrow> Inl (Thrown (Some noImageMessage))))))"

text \<open>
  The two ways the retouch call fails: the remote call throws, or its response holds no
  image data in any part of any candidate.
\<close>

definition part_has_data :: "part \<Rightarrow> bool" where
  "part_has_data p =
     (case inlineData p of Some (Blob (Some d)) \<Rightarrow> d \<noteq> [] | _ \<Rightarrow> False)"

definition candidate_has_data :: "candidate \<Rightarrow> bool" where
  "candidate_has_data c = (case parts c of None \<Rightarrow> False | Some ps \<Rightarrow> list_ex part_has_data ps)"

definition has_image_data :: "response \<Rightarrow> bool" where
  "has_image_data r =
     (case candidates r of None \<Rightarrow> False | Some cs \<Rightarrow> list_ex candidate_has_data cs)"

definition retouch_fails :: "gen_result \<Rightarrow> bool" where
  "retouch_fails g = (case g of Rejects e \<Rightarrow> True | Resolves r \<Rightarrow> \<not> has_image_data r)"

section \<open>The session state and the processing handler\<close>

text \<open>
  Source: \<^verbatim>\<open>src/App.tsx\<close>, lines 9 to 58: the four state variables of \<open>App\<close>
  and \<open>handleProcessImage\<close>.
\<close>

record app_state =
  originalImage :: "string option"
  processedImage :: "string option"
  isProcessing :: bool
  error :: "string option"

definition app_init :: app_state where
  "app_init = \<lparr>originalImage = None, processedImage = None, isProcessing = False, error = None\<rparr>"

definition processFallbackMessage :: string where
  "processFallbackMessage = ''Failed to process image with Gemini AI.''"

text \<open>\<open>err.message || fallback\<close>: a missing or empty message gives the fallback.\<close>

definition messageOr :: "js_error \<Rightarrow> string \<Rightarrow> string" where
  "messageOr e fallback =
     (case message e of
        None \<Rightarrow> fallback
      | Some m \<Rightarrow> (if m = [] then fallback else m))"

text \<open>
  \<open>handleProcessImage\<close>, from the click to the end of its \<open>finally\<close> block, as one
  step on the session state.
\<close>

definition handleProcessImage ::
  "(string option \<Rightarrow> string \<Rightarrow> gen_result) \<Rightarrow> app_state \<Rightarrow> app_state"
where
  "handleProcessImage generateContent s =
     (case originalImage s of
        None \<Rightarrow> s
      | Some img \<Rightarrow>
          (let s1 = s\<lparr>isProcessing := True, error := None\<rparr>;
               mimeType = getMimeType img;
               rawBase64 = getBase64Data img;
               s2 = (case processFaceImage generateContent rawBase64 mimeType of
                       Inr processedBase64Data \<Rightarrow>
                         s1\<lparr>processedImage := Some (dataUrlOf mimeType processedBase64Data)\<rparr>
                     | Inl err \<Rightarrow>
                         s1\<lparr>error := Some (messageOr err processFallbackMessage)\<rparr>)
           in s2\<lparr>isProcessing := False\<rparr>))"

section \<open>Editor: the editing state\<close>

text \<open>
  Source: the component \<open>Editor\<close>, in \<^verbatim>\<open>src/components/UploadZone.tsx\<close> from
  line 81 on. The cursor position and the slider's drag flag play no part in what follows
  and are left out of the state.
\<close>

datatype retouch_mode = Auto | Manual

datatype view_mode = Split | Hold

text \<open>
  A spot: \<open>id\<close>, centre \<open>x\<close>, \<open>y\<close> in percent of the displayed image, \<open>radius\<close> in
  percent of its width. JavaScript numbers are modelled as real numbers.
\<close>

record spot =
  spot_id :: string
  spot_x :: real
  spot_y :: real
  spot_radius :: real

record editor_state =
  intensity :: int
  viewMode :: view_mode
  retouchMode :: retouch_mode
  spots :: "spot list"
  isHoldingOriginal :: bool
  sliderPosition :: real
  brushSize :: real
  aspectRatio :: real

definition editor_init :: editor_state where
  "editor_init =
     \<lparr>intensity = 60, viewMode = Split, retouchMode = Auto, spots = [],
      isHoldingOriginal = False, sliderPosition = 50, brushSize = 5 / 2, aspectRatio = 1\<rparr>"

text \<open>\<open>handleImageLoad\<close>: the aspect ratio is captured when the height is positive.\<close>

definition handleImageLoad :: "nat \<Rightarrow> nat \<Rightarrow> editor_state \<Rightarrow> editor_state" where
  "handleImageLoad naturalW naturalH s =
     (if naturalH > 0 then s\<lparr>aspectRatio := real naturalW / real naturalH\<rparr> else s)"

subsection \<open>Spots\<close>

text \<open>\<open>Date.now().toString()\<close>: the decimal digits of the clock's milliseconds.\<close>

definition digit_char :: "nat \<Rightarrow> char" where
  "digit_char d = ''0123456789'' ! d"

fun toString_nat :: "nat \<Rightarrow> string" where
  "toString_nat n =
     (if n < 10 then [digit_char n]
      else toString_nat (n div 10) @ [digit_char (n mod 10)])"

declare toString_nat.simps [simp del]

record rect =
  rect_left :: real
  rect_top :: real
  rect_width :: real
  rect_height :: real

text \<open>
  A click on the image container: the pointer position, whether the target lies inside a
  \<open>.slider-handle\<close> or a \<open>.spot-remover\<close>, the container's bounding rectangle when the
  container is mounted, and the value \<open>Date.now()\<close> returns while the handler runs.
  The coordinates are divided by the container's width and height; a container that
  receives a click has positive ones.
\<close>

record click =
  clientX :: real
  clientY :: real
  onControl :: bool
  container :: "rect option"
  now :: nat

definition handleImageClick :: "click \<Rightarrow> editor_state \<Rightarrow> editor_state" where
  "handleImageClick e s =
     (if retouchMode s \<noteq> Manual then s
      else (case container e of
              None \<Rightarrow> s
            | Some r \<Rightarrow>
                (if onControl e then s
                 else (let x = ((clientX e - rect_left r) / rect_width r) * 100;
                           y = ((clientY e - rect_top r) / rect_height r) * 100;
                           newSpot = \<lparr>spot_id = toString_nat (now e), spot_x = x, spot_y = y,
                                      spot_radius = brushSize s\<rparr>
                       in s\<lparr>spots := spots s @ [newSpot]\<rparr>))))"

definition removeSpot :: "string \<Rightarrow> editor_state \<Rightarrow> editor_state" where
  "removeSpot i s = s\<lparr>spots := filter (\<lambda>sp. spot_id sp \<noteq> i) (spots s)\<rparr>"

definition clearAllSpots :: "editor_state \<Rightarrow> editor_state" where
  "clearAllSpots s = s\<lparr>spots := []\<rparr>"

subsection \<open>Mode and view-mode buttons\<close>

definition clickAutoMode :: "editor_state \<Rightarrow> editor_state" where
  "clickAutoMode s = s\<lparr>retouchMode := Auto, viewMode := Split\<rparr>"

definition clickManualMode :: "editor_state \<Rightarrow> editor_state" where
  "clickManualMode s = s\<lparr>retouchMode := Manual, viewMode := Hold\<rparr>"

text \<open>The Split button is disabled while the retouch mode is Manual: its click does nothing.\<close>

definition clickSplitPreview :: "editor_state \<Rightarrow> editor_state" where
  "clickSplitPreview s = (if retouchMode s = Manual then s else s\<lparr>viewMode := Split\<rparr>)"

definition clickHoldForOriginal :: "editor_state \<Rightarrow> editor_state" where
  "clickHoldForOriginal s = s\<lparr>viewMode := Hold\<rparr>"

datatype editor_event =
    ClickAutoMode
  | ClickManualMode
  | ClickSplitPreview
  | ClickHoldForOriginal
  | ImageClick click
  | RemoveSpot string
  | ClearAllSpots
  | SetIntensity int
  | SetBrushSize real
  | SetHolding bool
  | ImageLoad nat nat

fun dispatch :: "editor_state \<Rightarrow> editor_event \<Rightarrow> editor_state" where
  "dispatch s ClickAutoMode = clickAutoMode s"
| "dispatch s ClickManualMode = clickManualMode s"
| "dispatch s ClickSplitPreview = clickSplitPreview s"
| "dispatch s ClickHoldForOriginal = clickHoldForOriginal s"
| "dispatch s (ImageClick e) = handleImageClick e s"
| "dispatch s (RemoveSpot i) = removeSpot i s"
| "dispatch s ClearAllSpots = clearAllSpots s"
| "dispatch s (SetIntensity v) = s\<lparr>intensity := v\<rparr>"
| "dispatch s (SetBrushSize v) = s\<lparr>brushSize := v\<rparr>"
| "dispatch s (SetHolding b) = s\<lparr>isHoldingOriginal := b\<rparr>"
| "dispatch s (ImageLoad w h) = handleImageLoad w h s"

definition run_events :: "editor_state \<Rightarrow> editor_event list \<Rightarrow> editor_state" where
  "run_events s evs = foldl dispatch s evs"

text \<open>In Manual mode the view mode is Hold.\<close>

definition mode_invariant :: "editor_state \<Rightarrow> bool" where
  "mode_invariant s = (retouchMode s = Manual \<longrightarrow> viewMode s = Hold)"

definition distinct_ids :: "editor_state \<Rightarrow> bool" where
  "distinct_ids s = distinct (map spot_id (spots s))"

subsection \<open>Live preview: the style of the processed layer and the clip mask\<close>

record style =
  opacity :: real
  clipPath :: "string option"

definition getMaskStyle :: "editor_state \<Rightarrow> style" where
  "getMaskStyle s =
     (if retouchMode s = Auto then \<lparr>opacity = real_of_int (intensity s) / 100, clipPath = None\<rparr>
      else if length (spots s) = 0 then \<lparr>opacity = 0, clipPath = None\<rparr>
      else \<lparr>opacity = real_of_int (intensity s) / 100, clipPath = Some ''url(#spot-mask)''\<rparr>)"







section \<open>The 2D canvas\<close>

text \<open>
  The part of the browser's canvas the export calls, with real coordinates: a pixel is
  painted when its centre lies in the region drawn to, without anti-aliasing, and colours
  carry no alpha channel.
  A decoded image has its natural size and a colour at every position of its own pixel
  space. Colours are triples of reals.
\<close>

type_synonym colour = "real \<times> real \<times> real"

record html_image =
  naturalWidth :: nat
  naturalHeight :: nat
  sample :: "real \<Rightarrow> real \<Rightarrow> colour"

datatype subpath =
    PointPath real real
  | RectPath real real real real
  | ArcPath real real real

datatype canvas_error = IndexSizeError

text \<open>
  The context: the surface, the drawing state (\<open>globalAlpha\<close>, clip region), the current
  path and the stack of saved drawing states. The clip region is the intersection of the
  paths clipped to so far, each the union of its subpaths.
\<close>

record context2d =
  canvas_width :: nat
  canvas_height :: nat
  raster :: "nat \<Rightarrow> nat \<Rightarrow> colour"
  globalAlpha :: real
  clipRegion :: "subpath list list"
  path :: "subpath list"
  stack :: "(real \<times> subpath list list) list"

definition newCanvas :: "nat \<Rightarrow> nat \<Rightarrow> context2d" where
  "newCanvas w h =
     \<lparr>canvas_width = w, canvas_height = h, raster = (\<lambda>i j. (0, 0, 0)), globalAlpha = 1,
      clipRegion = [], path = [], stack = []\<rparr>"

definition save :: "context2d \<Rightarrow> context2d" where
  "save c = c\<lparr>stack := (globalAlpha c, clipRegion c) # stack c\<rparr>"

definition restore :: "context2d \<Rightarrow> context2d" where
  "restore c =
     (case stack c of
        [] \<Rightarrow> c
      | (a, cl) # st \<Rightarrow> c\<lparr>globalAlpha := a, clipRegion := cl, stack := st\<rparr>)"

text \<open>Assigning \<open>globalAlpha\<close> a value outside \<open>[0, 1]\<close> is ignored.\<close>

definition setGlobalAlpha :: "real \<Rightarrow> context2d \<Rightarrow> context2d" where
  "setGlobalAlpha a c = (if 0 \<le> a \<and> a \<le> 1 then c\<lparr>globalAlpha := a\<rparr> else c)"

definition beginPath :: "context2d \<Rightarrow> context2d" where
  "beginPath c = c\<lparr>path := []\<rparr>"

definition rect_path :: "real \<Rightarrow> real \<Rightarrow> real \<Rightarrow> real \<Rightarrow> context2d \<Rightarrow> context2d" where
  "rect_path x y w h c = c\<lparr>path := path c @ [RectPath x y w h]\<rparr>"

definition moveTo :: "real \<Rightarrow> real \<Rightarrow> context2d \<Rightarrow> context2d" where
  "moveTo x y c = c\<lparr>path := path c @ [PointPath x y]\<rparr>"

text \<open>
  \<open>arc(x, y, r, 0, 2 * Math.PI)\<close>, the only form the editor uses: a full circle. A negative
  radius raises \<open>IndexSizeError\<close>.
\<close>

definition arc :: "real \<Rightarrow> real \<Rightarrow> real \<Rightarrow> context2d \<Rightarrow> canvas_error + context2d" where
  "arc x y r c = (if r < 0 then Inl IndexSizeError else Inr (c\<lparr>path := path c @ [ArcPath x y r]\<rparr>))"

definition clip :: "context2d \<Rightarrow> context2d" where
  "clip c = c\<lparr>clipRegion := path c # clipRegion c\<rparr>"

text \<open>The interior of a subpath; a single point encloses nothing.\<close>

fun inside :: "subpath \<Rightarrow> real \<times> real \<Rightarrow> bool" where
  "inside (PointPath x y) (px, py) = False"
| "inside (RectPath x y w h) (px, py) =
     (min x (x + w) < px \<and> px < max x (x + w) \<and> min y (y + h) < py \<and> py < max y (y + h))"
| "inside (ArcPath x y r) (px, py) = ((px - x)\<^sup>2 + (py - y)\<^sup>2 < r\<^sup>2)"

definition inPath :: "subpath list \<Rightarrow> real \<times> real \<Rightarrow> bool" where
  "inPath ps p = list_ex (\<lambda>sp. inside sp p) ps"

definition inClip :: "context2d \<Rightarrow> real \<times> real \<Rightarrow> bool" where
  "inClip c p = list_all (\<lambda>ps. inPath ps p) (clipRegion c)"

definition centre :: "nat \<Rightarrow> nat \<Rightarrow> real \<times> real" where
  "centre i j = (real i + 1 / 2, real j + 1 / 2)"

definition blend :: "real \<Rightarrow> colour \<Rightarrow> colour \<Rightarrow> colour" where
  "blend a src dst =
     (case src of (r1, g1, b1) \<Rightarrow>
        (case dst of (r2, g2, b2) \<Rightarrow>
           (a * r1 + (1 - a) * r2, a * g1 + (1 - a) * g2, a * b1 + (1 - a) * b2)))"

text \<open>
  \<open>drawImage(img, dx, dy, dw, dh)\<close>: the whole image is mapped onto the destination
  rectangle, each axis scaled on its own; a pixel of the surface is painted when its
  centre lies in the rectangle and in the clip region, with the colour of the image at
  the corresponding position, blended by \<open>globalAlpha\<close>. An image without pixels draws
  nothing, nor does a destination without area (the export passes the size of the
  surface, which is never negative).
\<close>

definition drawImageScaled ::
  "html_image \<Rightarrow> real \<Rightarrow> real \<Rightarrow> real \<Rightarrow> real \<Rightarrow> context2d \<Rightarrow> context2d"
where
  "drawImageScaled img dx dy dw dh c =
     (if naturalWidth img = 0 \<or> naturalHeight img = 0 \<or> dw \<le> 0 \<or> dh \<le> 0 then c
      else c\<lparr>raster := (\<lambda>i j.
             (case centre i j of (px, py) \<Rightarrow>
                (if i < canvas_width c \<and> j < canvas_height c \<and> inClip c (px, py)
                    \<and> dx \<le> px \<and> px < dx + dw \<and> dy \<le> py \<and> py < dy + dh
                 then blend (globalAlpha c)
                        (sample img ((px - dx) * real (naturalWidth img) / dw)
                                    ((py - dy) * real (naturalHeight img) / dh))
                        (raster c i j)
                 else raster c i j)))\<rparr>)"

text \<open>\<open>drawImage(img, dx, dy)\<close>: the destination has the image's natural size.\<close>

definition drawImage :: "html_image \<Rightarrow> real \<Rightarrow> real \<Rightarrow> context2d \<Rightarrow> context2d" where
  "drawImage img dx dy c =
     drawImageScaled img dx dy (real (naturalWidth img)) (real (naturalHeight img)) c"

text \<open>
  \<open>toDataURL(type, quality)\<close>: the encoded image, represented by its type, its
  quality, its size and the raster it encodes.
\<close>

record encoded_image =
  enc_type :: string
  enc_quality :: real
  enc_width :: nat
  enc_height :: nat
  enc_raster :: "nat \<Rightarrow> nat \<Rightarrow> colour"

definition toDataURL :: "string \<Rightarrow> real \<Rightarrow> context2d \<Rightarrow> encoded_image" where
  "toDataURL ty q c =
     \<lparr>enc_type = ty, enc_quality = q, enc_width = canvas_width c,
      enc_height = canvas_height c, enc_raster = raster c\<rparr>"

section \<open>Editor: the export (\<open>handleDownload\<close>)\<close>

text \<open>
  The browser, as far as the export depends on it: the decoder behind \<open>img.src = ...\<close>
  (\<open>None\<close> when the image does not decode, in which case \<open>onload\<close> never fires), and
  whether \<open>getContext('2d')\<close> returns a context.
\<close>

record browser =
  decode :: "string \<Rightarrow> html_image option"
  hasContext :: bool

record download =
  fileName :: string
  href :: encoded_image

text \<open>
  How a call ends: it returns at once when there is no processed image; it stays pending
  for ever when an image does not decode (\<open>loadImg\<close> resolves in \<open>onload\<close> only, and
  nothing else settles the promise); it returns after sizing the canvas when there is no
  context; a canvas call may throw; otherwise the link is clicked.
\<close>

datatype download_outcome =
    NotStarted
  | Pending
  | NoContext
  | Threw canvas_error
  | Downloaded download

text \<open>The loop \<open>spots.forEach\<close>: for each spot, \<open>moveTo(x + r, y)\<close> and a full arc.\<close>

fun spotArcs :: "spot list \<Rightarrow> context2d \<Rightarrow> canvas_error + context2d" where
  "spotArcs [] c = Inr c"
| "spotArcs (sp # rest) c =
     (let x = (spot_x sp / 100) * real (canvas_width c);
          y = (spot_y sp / 100) * real (canvas_height c);
          r = (spot_radius sp / 100) * real (canvas_width c)
      in (case arc x y r (moveTo (x + r) y c) of
            Inl e \<Rightarrow> Inl e
          | Inr c' \<Rightarrow> spotArcs rest c'))"

text \<open>Step 4 of the export: the masking applied in Manual mode.\<close>

definition applyMask :: "editor_state \<Rightarrow> context2d \<Rightarrow> canvas_error + context2d" where
  "applyMask ed c =
     (if retouchMode ed = Manual then
        (if length (spots ed) = 0 then Inr (clip (rect_path 0 0 0 0 (beginPath c)))
         else (case spotArcs (spots ed) (beginPath c) of
                 Inl e \<Rightarrow> Inl e
               | Inr c' \<Rightarrow> Inr (clip c')))
      else Inr c)"

text \<open>
  Steps 1 to 3 of the export: the surface of the original's natural size, the original
  drawn at the origin, the drawing state saved, the opacity set.
\<close>

definition prepareSurface :: "editor_state \<Rightarrow> html_image \<Rightarrow> context2d" where
  "prepareSurface ed imgOriginal =
     (let c1 = drawImage imgOriginal 0 0
                 (newCanvas (naturalWidth imgOriginal) (naturalHeight imgOriginal));
          c2 = save c1
      in setGlobalAlpha (real_of_int (intensity ed) / 100) c2)"

text \<open>
  The callback of \<open>Promise.all(...).then\<close>, run once both images are decoded: the
  canvas is sized; without a context it returns; otherwise it prepares the surface, masks,
  draws the processed image over the whole surface, restores and downloads.
\<close>

definition compose ::
  "bool \<Rightarrow> editor_state \<Rightarrow> html_image \<Rightarrow> html_image \<Rightarrow> download_outcome"
where
  "compose ctx ed imgOriginal imgProcessed =
     (if \<not> ctx then NoContext
      else (case applyMask ed (prepareSurface ed imgOriginal) of
              Inl e \<Rightarrow> Threw e
            | Inr c4 \<Rightarrow>
                (let c5 = drawImageScaled imgProcessed 0 0
                            (real (canvas_width c4)) (real (canvas_height c4)) c4;
                     c6 = restore c5
                 in Downloaded
                      \<lparr>fileName = ''dermafix-retouched.jpg'',
                       href = toDataURL ''image/jpeg'' (92 / 100) c6\<rparr>)))"

text \<open>
  \<open>handleDownload\<close>: the session state it leaves and how the call ends. The handler has
  no access to the setters of the session state, which is returned as it was.
\<close>

definition handleDownload ::
  "browser \<Rightarrow> app_state \<Rightarrow> editor_state \<Rightarrow> app_state \<times> download_outcome"
where
  "handleDownload env app ed =
     (case processedImage app of
        None \<Rightarrow> (app, NotStarted)
      | Some processedSrc \<Rightarrow>
          (case originalImage app of
             None \<Rightarrow> (app, NotStarted)
           | Some originalSrc \<Rightarrow>
               (case decode env originalSrc of
                  None \<Rightarrow> (app, Pending)
                | Some imgOriginal \<Rightarrow>
                    (case decode env processedSrc of
                       None \<Rightarrow> (app, Pending)
                     | Some imgProcessed \<Rightarrow>
                         (app, compose (hasContext env) ed imgOriginal imgProcessed)))))"

section \<open>Derived descriptions and sample inputs\<close>

text \<open>The subpaths the export adds for one spot on a surface of the given size.\<close>

definition spotSubpaths :: "nat \<Rightarrow> nat \<Rightarrow> spot \<Rightarrow> subpath list" where
  "spotSubpaths w h sp =
     [PointPath ((spot_x sp / 100) * real w + (spot_radius sp / 100) * real w)
                ((spot_y sp / 100) * real h),
      ArcPath ((spot_x sp / 100) * real w) ((spot_y sp / 100) * real h)
              ((spot_radius sp / 100) * real w)]"

text \<open>
  Two clicks at different positions of a container of 100 by 100 pixels, handled while
  the clock shows the same millisecond, and the store after the first of them.
\<close>

definition box100 :: rect where
  "box100 = \<lparr>rect_left = 0, rect_top = 0, rect_width = 100, rect_height = 100\<rparr>"

definition clickA :: click where
  "clickA = \<lparr>clientX = 10, clientY = 10, onControl = False, container = Some box100,
             now = 1700000000000\<rparr>"

definition clickB :: click where
  "clickB = \<lparr>clientX = 50, clientY = 50, onControl = False, container = Some box100,
             now = 1700000000000\<rparr>"

definition spotA :: spot where
  "spotA = \<lparr>spot_id = ''1700000000000'', spot_x = 10, spot_y = 10, spot_radius = 5 / 2\<rparr>"

definition storeA :: editor_state where
  "storeA = run_events editor_init [ClickManualMode, ImageClick clickA]"

text \<open>Data URLs, session states and responses of the remote call.\<close>

definition srcO :: string where
  "srcO = ''data:image/png;base64,QUJD''"

definition srcP :: string where
  "srcP = ''data:image/png;base64,REVG''"

definition appA :: app_state where
  "appA = app_init\<lparr>originalImage := Some srcO\<rparr>"

definition appB :: app_state where
  "appB = \<lparr>originalImage = Some srcO, processedImage = Some srcP, isProcessing = False,
            error = None\<rparr>"

definition noImageResponse :: "string option \<Rightarrow> string \<Rightarrow> gen_result" where
  "noImageResponse b m = Resolves (Response (Some [Candidate (Some [Part None])]))"

definition echoResponse :: "string option \<Rightarrow> string \<Rightarrow> gen_result" where
  "echoResponse b m =
     Resolves (Response (Some [Candidate (Some [Part (Some (Blob (Some ''REVG'')))])]))"

text \<open>
  Decoded images (the original of 10 by 10 pixels, the processed one of 2 by 3), a browser
  that decodes both sources, one that fails to decode the processed source, and editor
  states in Manual mode without a spot and with one spot at the centre.
\<close>

definition imgO :: html_image where
  "imgO = \<lparr>naturalWidth = 10, naturalHeight = 10, sample = (\<lambda>x y. (x, y, 0))\<rparr>"

definition imgP :: html_image where
  "imgP = \<lparr>naturalWidth = 2, naturalHeight = 3, sample = (\<lambda>x y. (1, 1, 1))\<rparr>"

definition envA :: browser where
  "envA = \<lparr>decode = (\<lambda>s. if s = srcO then Some imgO else if s = srcP then Some imgP else None),
            hasContext = True\<rparr>"

definition envBroken :: browser where
  "envBroken = \<lparr>decode = (\<lambda>s. if s = srcO then Some imgO else None), hasContext = True\<rparr>"

definition edManualEmpty :: editor_state where
  "edManualEmpty = editor_init\<lparr>retouchMode := Manual, viewMode := Hold\<rparr>"


section \<open>Properties of the helpers\<close>


lemma indexOf_first: "c \<notin> set xs \<Longrightarrow> indexOf (xs @ c # ys) c = int (length xs)"
  by (induction xs) (auto simp: Let_def)

lemma split_js_no_sep: "sep \<notin> set xs \<Longrightarrow> split_js sep xs = [xs]"
  by (induction xs) auto

lemma split_js_first: "sep \<notin> set xs \<Longrightarrow> split_js sep (xs @ sep # ys) = xs # split_js sep ys"
  by (induction xs) auto

lemma base64_payload_no_comma: "base64_payload d \<Longrightarrow> CHR '','' \<notin> set d"
proof
  assume a: "base64_payload d" and b: "CHR '','' \<in> set d"
  then have "base64_char CHR '',''" by (simp add: base64_payload_def list_all_iff)
  then show False by (simp add: base64_char_def base64_alphabet_def)
qed

lemma getMimeType_dataUrlOf:
  assumes "CHR '':'' \<notin> set m" and "CHR '';'' \<notin> set m"
  shows "getMimeType (dataUrlOf m d) = m"
proof -
  let ?u = "dataUrlOf m d"
  have colon: "indexOf ?u CHR '':'' = 4"
    by (simp add: dataUrlOf_def Let_def)
  have eq: "?u = (''data:'' @ m) @ CHR '';'' # (''base64,'' @ d)"
    by (simp add: dataUrlOf_def)
  have "CHR '';'' \<notin> set (''data:'' @ m)"
    using assms by simp
  then have semi: "indexOf ?u CHR '';'' = int (length (''data:'' @ m))"
    unfolding eq by (rule indexOf_first)
  have len: "int (length ?u) \<ge> 5 + int (length m)"
    by (simp add: dataUrlOf_def)
  have "substring ?u 5 (5 + int (length m)) = take (length m) (drop 5 ?u)"
    using len by (simp add: substring_def Let_def min_def max_def)
  also have "\<dots> = m"
    by (simp add: dataUrlOf_def)
  finally show ?thesis
    using colon semi by (simp add: getMimeType_def)
qed

lemma getBase64Data_dataUrlOf:
  assumes "CHR '','' \<notin> set m" and "CHR '','' \<notin> set d"
  shows "getBase64Data (dataUrlOf m d) = Some d"
proof -
  have eq: "dataUrlOf m d = (''data:'' @ m @ '';base64'') @ CHR '','' # d"
    by (simp add: dataUrlOf_def)
  have "CHR '','' \<notin> set (''data:'' @ m @ '';base64'')"
    using assms by simp
  then have "split_js CHR '','' (dataUrlOf m d)
      = (''data:'' @ m @ '';base64'') # split_js CHR '','' d"
    unfolding eq by (rule split_js_first)
  then show ?thesis
    using assms by (simp add: getBase64Data_def index_js_def split_js_no_sep)
qed

section \<open>The blend mode state machine\<close>

lemma dispatch_mode_invariant: "mode_invariant s \<Longrightarrow> mode_invariant (dispatch s ev)"
  by (cases ev)
     (auto simp: mode_invariant_def clickAutoMode_def clickManualMode_def clickSplitPreview_def
        clickHoldForOriginal_def handleImageClick_def removeSpot_def clearAllSpots_def
        handleImageLoad_def Let_def split: option.splits)

lemma foldl_dispatch_mode_invariant:
  "mode_invariant s \<Longrightarrow> mode_invariant (foldl dispatch s evs)"
  by (induction evs arbitrary: s) (simp_all add: dispatch_mode_invariant)

lemma mode_invariant_init: "mode_invariant editor_init"
  by (simp add: mode_invariant_def editor_init_def)

text \<open>
  C1. After any sequence of editor events, a click on the Manual button leaves the
  retouch mode Manual and the view mode Hold, and a click on the Auto button leaves the
  retouch mode Auto and the view mode Split. The invariant (retouch mode Manual implies
  view mode Hold) holds after any sequence of events from the initial state, and every
  event preserves it; the sequences of mode and view-mode toggles are among them.
\<close>

theorem C1_mode_coupling:
  "viewMode (run_events s (evs @ [ClickManualMode])) = Hold
   \<and> retouchMode (run_events s (evs @ [ClickManualMode])) = Manual
   \<and> viewMode (run_events s (evs @ [ClickAutoMode])) = Split
   \<and> retouchMode (run_events s (evs @ [ClickAutoMode])) = Auto
   \<and> mode_invariant (run_events editor_init evs)
   \<and> (mode_invariant s \<longrightarrow> mode_invariant (run_events s evs))"
  by (simp add: run_events_def clickManualMode_def clickAutoMode_def
       foldl_dispatch_mode_invariant mode_invariant_init)

theorem C1_mode_coupling_witness:
  "retouchMode (run_events editor_init [ClickManualMode, ClickSplitPreview, ClickHoldForOriginal]) = Manual
   \<and> viewMode (run_events editor_init [ClickManualMode, ClickSplitPreview, ClickHoldForOriginal]) = Hold"
  using C1_mode_coupling [of editor_init "[ClickManualMode, ClickSplitPreview, ClickHoldForOriginal]"]
  by (simp add: mode_invariant_def run_events_def clickManualMode_def clickSplitPreview_def
       clickHoldForOriginal_def editor_init_def)

section \<open>The live preview\<close>

text \<open>
  C2. In Manual mode with no spot, the style \<open>getMaskStyle\<close> derives for the processed
  layer has opacity 0, whatever the intensity.
\<close>

theorem C2_manual_empty_hidden:
  "retouchMode s = Manual \<Longrightarrow> spots s = [] \<Longrightarrow> opacity (getMaskStyle s) = 0"
  by (simp add: getMaskStyle_def)

theorem C2_manual_empty_hidden_witness:
  "retouchMode (editor_init\<lparr>retouchMode := Manual, intensity := 80\<rparr>) = Manual
   \<and> spots (editor_init\<lparr>retouchMode := Manual, intensity := 80\<rparr>) = []
   \<and> intensity (editor_init\<lparr>retouchMode := Manual, intensity := 80\<rparr>) = 80
   \<and> opacity (getMaskStyle (editor_init\<lparr>retouchMode := Manual, intensity := 80\<rparr>)) = 0"
  using C2_manual_empty_hidden [of "editor_init\<lparr>retouchMode := Manual, intensity := 80\<rparr>"]
  by (simp add: editor_init_def)

section \<open>The spot store\<close>

lemma toString_nat_small: "n < 10 \<Longrightarrow> toString_nat n = [digit_char n]"
  by (simp add: toString_nat.simps)

lemma toString_nat_large:
  "10 \<le> n \<Longrightarrow> toString_nat n = toString_nat (n div 10) @ [digit_char (n mod 10)]"
  by (subst toString_nat.simps) simp

lemmas toString_nat_eval = toString_nat_small toString_nat_large digit_char_def

lemma handleImageClick_adds:
  "retouchMode s = Manual \<Longrightarrow> container e = Some r \<Longrightarrow> \<not> onControl e \<Longrightarrow>
   spots (handleImageClick e s) =
     spots s @ [\<lparr>spot_id = toString_nat (now e),
                 spot_x = ((clientX e - rect_left r) / rect_width r) * 100,
                 spot_y = ((clientY e - rect_top r) / rect_height r) * 100,
                 spot_radius = brushSize s\<rparr>]"
  by (simp add: handleImageClick_def Let_def)

lemma add_then_remove_fresh:
  assumes "retouchMode s = Manual" and "container e = Some r" and "\<not> onControl e"
    and "\<forall>sp\<in>set (spots s). spot_id sp \<noteq> toString_nat (now e)"
  shows "removeSpot (toString_nat (now e)) (handleImageClick e s) = s"
proof -
  have "filter (\<lambda>sp. spot_id sp \<noteq> toString_nat (now e)) (spots s) = spots s"
    using assms(4) by (auto simp: filter_id_conv)
  then show ?thesis
    using assms(1-3) by (simp add: handleImageClick_def removeSpot_def Let_def)
qed

lemma removeSpot_distinct_ids: "distinct_ids s \<Longrightarrow> distinct_ids (removeSpot i s)"
  by (simp add: distinct_ids_def removeSpot_def distinct_map_filter)

lemma handleImageClick_distinct_ids:
  "distinct_ids s \<Longrightarrow> \<forall>sp\<in>set (spots s). spot_id sp \<noteq> toString_nat (now e) \<Longrightarrow>
   distinct_ids (handleImageClick e s)"
  by (auto simp: distinct_ids_def handleImageClick_def Let_def split: option.splits)

text \<open>
  C7 states that adding a spot and then removing the id it was given leaves the store as
  it was, as a set of spots. The id is the clock's millisecond, so a click handled in the
  same millisecond as an earlier one gives the new spot the id of a spot already in the
  store, and \<open>removeSpot\<close> of that id removes both: here the store holds one spot
  before the click and none after the removal.
\<close>

theorem C7_add_remove_collision:
  "storeA = run_events editor_init [ClickManualMode, ImageClick clickA]
   \<and> spots storeA = [spotA]
   \<and> spots (handleImageClick clickB storeA) =
       [spotA, \<lparr>spot_id = ''1700000000000'', spot_x = 50, spot_y = 50, spot_radius = 5 / 2\<rparr>]
   \<and> spots (removeSpot ''1700000000000'' (handleImageClick clickB storeA)) = []
   \<and> set (spots (removeSpot ''1700000000000'' (handleImageClick clickB storeA)))
       \<noteq> set (spots storeA)"
  by (simp add: storeA_def spotA_def clickA_def clickB_def box100_def editor_init_def run_events_def
       clickManualMode_def handleImageClick_def removeSpot_def Let_def toString_nat_eval)

text \<open>
  C8 states that the ids of the spots in the store are pairwise distinct after any
  sequence of additions and removals. Two clicks handled in the same millisecond, after
  the switch to Manual mode, leave two spots with the same id.
\<close>

theorem C8_duplicate_ids:
  "map spot_id (spots (run_events editor_init
       [ClickManualMode, ImageClick clickA, ImageClick clickB]))
     = [''1700000000000'', ''1700000000000'']
   \<and> \<not> distinct_ids (run_events editor_init
       [ClickManualMode, ImageClick clickA, ImageClick clickB])"
  by (simp add: run_events_def distinct_ids_def clickA_def clickB_def box100_def editor_init_def
       clickManualMode_def handleImageClick_def Let_def toString_nat_eval)


section \<open>The retouch call\<close>

lemma firstInlineData_None: "\<not> list_ex part_has_data ps \<Longrightarrow> firstInlineData ps = None"
  by (induction ps) (auto simp: part_has_data_def split: option.splits blob.splits)

lemma retouch_fails_Inl:
  assumes "retouch_fails (g b m)"
  shows "\<exists>e. processFaceImage g b m = Inl e \<and> messageOr e processFallbackMessage \<noteq> []
           \<and> (\<forall>r. g b m = Resolves r \<longrightarrow>
                 e = Thrown (Some noImageMessage) \<or> e = Thrown (Some typeErrorMessage))"
proof (cases "g b m")
  case (Rejects e)
  then show ?thesis
    by (auto simp: processFaceImage_def messageOr_def processFallbackMessage_def
          split: option.splits)
next
  case (Resolves r)
  with assms have nodata: "\<not> has_image_data r"
    by (simp add: retouch_fails_def)
  show ?thesis
  proof (cases "candidates r")
    case None
    then show ?thesis using Resolves
      by (simp add: processFaceImage_def messageOr_def noImageMessage_def)
  next
    case (Some cs)
    show ?thesis
    proof (cases cs)
      case Nil
      then show ?thesis using Resolves Some
        by (simp add: processFaceImage_def messageOr_def noImageMessage_def)
    next
      case (Cons c rest)
      show ?thesis
      proof (cases "parts c")
        case None
        then show ?thesis using Resolves Some Cons
          by (simp add: processFaceImage_def messageOr_def typeErrorMessage_def)
      next
        case (Some ps)
        with nodata \<open>candidates r = Some cs\<close> Cons have "\<not> list_ex part_has_data ps"
          by (simp add: has_image_data_def candidate_has_data_def)
        then have "firstInlineData ps = None"
          by (rule firstInlineData_None)
        then show ?thesis using Resolves \<open>candidates r = Some cs\<close> Cons Some
          by (simp add: processFaceImage_def messageOr_def noImageMessage_def)
      qed
    qed
  qed
qed

lemma handleProcessImage_failure:
  assumes "originalImage s = Some img"
    and "processFaceImage g (getBase64Data img) (getMimeType img) = Inl e"
  shows "handleProcessImage g s =
           s\<lparr>isProcessing := False, error := Some (messageOr e processFallbackMessage)\<rparr>"
  using assms by (simp add: handleProcessImage_def Let_def)

lemma handleProcessImage_success:
  assumes "originalImage s = Some img"
    and "processFaceImage g (getBase64Data img) (getMimeType img) = Inr d"
  shows "handleProcessImage g s =
           s\<lparr>isProcessing := False, error := None,
             processedImage := Some (dataUrlOf (getMimeType img) d)\<rparr>"
  using assms by (simp add: handleProcessImage_def Let_def)

text \<open>
  C9. When the retouch call fails (the remote call throws, or its response holds no image
  data), \<open>handleProcessImage\<close> leaves a non-empty error message, the processed image
  as it was (absent when it was absent), \<open>isProcessing\<close> false and the original image
  retained; nothing else of the session state changes.
\<close>

theorem C9_retouch_failure:
  assumes "originalImage s = Some img"
    and "retouch_fails (g (getBase64Data img) (getMimeType img))"
  shows "(\<exists>msg. msg \<noteq> []
            \<and> handleProcessImage g s = s\<lparr>isProcessing := False, error := Some msg\<rparr>
            \<and> error (handleProcessImage g s) = Some msg)
         \<and> processedImage (handleProcessImage g s) = processedImage s
         \<and> (processedImage s = None \<longrightarrow> processedImage (handleProcessImage g s) = None)
         \<and> isProcessing (handleProcessImage g s) = False
         \<and> originalImage (handleProcessImage g s) = Some img"
proof -
  from retouch_fails_Inl [of g "getBase64Data img" "getMimeType img"] assms(2) obtain e where
    e: "processFaceImage g (getBase64Data img) (getMimeType img) = Inl e"
       "messageOr e processFallbackMessage \<noteq> []"
    by blast
  show ?thesis
    using assms(1) e(2) by (simp add: handleProcessImage_failure [OF assms(1) e(1)])
qed

theorem C9_retouch_failure_witness:
  "originalImage appA = Some srcO
   \<and> retouch_fails (noImageResponse (getBase64Data srcO) (getMimeType srcO))
   \<and> error (handleProcessImage noImageResponse appA) = Some noImageMessage
   \<and> processedImage (handleProcessImage noImageResponse appA) = None
   \<and> isProcessing (handleProcessImage noImageResponse appA) = False
   \<and> originalImage (handleProcessImage noImageResponse appA) = Some srcO"
proof -
  have a: "originalImage appA = Some srcO"
    by (simp add: appA_def app_init_def)
  have b: "retouch_fails (noImageResponse (getBase64Data srcO) (getMimeType srcO))"
    by (simp add: noImageResponse_def retouch_fails_def has_image_data_def
          candidate_has_data_def part_has_data_def)
  have c: "error (handleProcessImage noImageResponse appA) = Some noImageMessage"
    by (simp add: handleProcessImage_def appA_def app_init_def srcO_def Let_def noImageResponse_def
          processFaceImage_def messageOr_def noImageMessage_def)
  have d: "processedImage appA = None"
    by (simp add: appA_def app_init_def)
  show ?thesis
    using C9_retouch_failure [of appA srcO noImageResponse] a b c d by simp
qed

section \<open>Data URLs\<close>

text \<open>
  C10 as stated fails for a mime type string that holds a comma: without \<open>:\<close> or
  \<open>;\<close>, and with a base64 payload, \<open>getBase64Data\<close> returns the text between the
  first and the second comma, not the payload.
\<close>

theorem C10_comma_counterexample:
  "CHR '':'' \<notin> set ''image/x,y'' \<and> CHR '';'' \<notin> set ''image/x,y''
   \<and> base64_payload ''QUJD''
   \<and> getBase64Data (dataUrlOf ''image/x,y'' ''QUJD'') = Some ''y;base64''
   \<and> getBase64Data (dataUrlOf ''image/x,y'' ''QUJD'') \<noteq> Some ''QUJD''"
  by (simp add: base64_payload_def base64_char_def base64_alphabet_def getBase64Data_def
       dataUrlOf_def index_js_def)

text \<open>
  C10, amended. For every mime type string without \<open>:\<close> or \<open>;\<close> and every base64
  payload, \<open>getMimeType\<close> of the data URL built from them returns the mime type, and
  the data URL \<open>handleProcessImage\<close> builds from a processing result carries the mime
  type of the original unchanged; \<open>getBase64Data\<close> of the data URL returns the payload
  when the mime type holds no \<open>,\<close> either.
\<close>

theorem C10_data_url_roundtrip:
  assumes "CHR '':'' \<notin> set m" and "CHR '';'' \<notin> set m" and "base64_payload d"
  shows "getMimeType (dataUrlOf m d) = m
         \<and> (CHR '','' \<notin> set m \<longrightarrow> getBase64Data (dataUrlOf m d) = Some d)
         \<and> (\<forall>g s p. originalImage s = Some (dataUrlOf m d)
                      \<and> processFaceImage g (getBase64Data (dataUrlOf m d)) m = Inr p
              \<longrightarrow> processedImage (handleProcessImage g s) = Some (dataUrlOf m p)
                  \<and> getMimeType (dataUrlOf m p) = m)"
proof -
  have mt: "getMimeType (dataUrlOf m x) = m" for x
    using assms(1,2) by (rule getMimeType_dataUrlOf)
  have bd: "getBase64Data (dataUrlOf m d) = Some d" if "CHR '','' \<notin> set m"
    using that base64_payload_no_comma [OF assms(3)] by (rule getBase64Data_dataUrlOf)
  have "processedImage (handleProcessImage g s) = Some (dataUrlOf m p)"
    if "originalImage s = Some (dataUrlOf m d)"
      and "processFaceImage g (getBase64Data (dataUrlOf m d)) m = Inr p"
    for g s p
    using that by (simp add: handleProcessImage_def Let_def mt)
  then show ?thesis
    using mt bd by blast
qed

theorem C10_data_url_roundtrip_witness:
  "CHR '':'' \<notin> set ''image/png'' \<and> CHR '';'' \<notin> set ''image/png''
   \<and> CHR '','' \<notin> set ''image/png'' \<and> base64_payload ''QUJD''
   \<and> originalImage appA = Some (dataUrlOf ''image/png'' ''QUJD'')
   \<and> processFaceImage echoResponse (getBase64Data (dataUrlOf ''image/png'' ''QUJD'')) ''image/png''
       = Inr ''REVG''
   \<and> getMimeType ''data:image/png;base64,QUJD'' = ''image/png''
   \<and> getBase64Data ''data:image/png;base64,QUJD'' = Some ''QUJD''
   \<and> processedImage (handleProcessImage echoResponse appA) = Some ''data:image/png;base64,REVG''
   \<and> getMimeType ''data:image/png;base64,REVG'' = ''image/png''"
proof -
  have h1: "CHR '':'' \<notin> set ''image/png''" and h2: "CHR '';'' \<notin> set ''image/png''"
    and h3: "CHR '','' \<notin> set ''image/png''"
    by simp_all
  have h4: "base64_payload ''QUJD''"
    by (simp add: base64_payload_def base64_char_def base64_alphabet_def)
  have a: "originalImage appA = Some (dataUrlOf ''image/png'' ''QUJD'')"
    by (simp add: appA_def app_init_def srcO_def dataUrlOf_def)
  have p: "processFaceImage echoResponse (getBase64Data (dataUrlOf ''image/png'' ''QUJD''))
             ''image/png'' = Inr ''REVG''"
    by (simp add: processFaceImage_def echoResponse_def)
  have u: "dataUrlOf ''image/png'' ''QUJD'' = ''data:image/png;base64,QUJD''"
          "dataUrlOf ''image/png'' ''REVG'' = ''data:image/png;base64,REVG''"
    by (simp_all add: dataUrlOf_def)
  note T = C10_data_url_roundtrip [OF h1 h2 h4]
  have t1: "getMimeType (dataUrlOf ''image/png'' ''QUJD'') = ''image/png''"
    using T by (rule conjunct1)
  have t2: "getBase64Data (dataUrlOf ''image/png'' ''QUJD'') = Some ''QUJD''"
    using T [THEN conjunct2, THEN conjunct1] h3 by (rule mp)
  have t3: "processedImage (handleProcessImage echoResponse appA)
              = Some (dataUrlOf ''image/png'' ''REVG'')
            \<and> getMimeType (dataUrlOf ''image/png'' ''REVG'') = ''image/png''"
    using T [THEN conjunct2, THEN conjunct2, rule_format, of appA echoResponse "''REVG''"] a p
    by simp
  show ?thesis
    using h1 h2 h3 h4 a p t1 t2 t3 unfolding u by simp
qed

section \<open>The export\<close>

lemma blend_one: "blend 1 src dst = src"
  by (cases src; cases dst) (simp add: blend_def)

lemma inClip_Nil: "clipRegion c = [] \<Longrightarrow> inClip c p"
  by (simp add: inClip_def)

lemma prepareSurface_fields:
  "canvas_width (prepareSurface ed io) = naturalWidth io"
  "canvas_height (prepareSurface ed io) = naturalHeight io"
  "clipRegion (prepareSurface ed io) = []"
  "stack (prepareSurface ed io) = [(1, [])]"
  "raster (prepareSurface ed io)
     = raster (drawImage io 0 0 (newCanvas (naturalWidth io) (naturalHeight io)))"
  by (simp_all add: prepareSurface_def Let_def setGlobalAlpha_def save_def drawImage_def
        drawImageScaled_def newCanvas_def)

lemma prepareSurface_alpha:
  "0 \<le> intensity ed \<Longrightarrow> intensity ed \<le> 100 \<Longrightarrow>
   globalAlpha (prepareSurface ed io) = real_of_int (intensity ed) / 100"
  by (simp add: prepareSurface_def Let_def setGlobalAlpha_def)

lemma drawImage_new_pixel:
  "i < w \<Longrightarrow> j < h \<Longrightarrow> naturalWidth io = w \<Longrightarrow> naturalHeight io = h \<Longrightarrow>
   raster (drawImage io 0 0 (newCanvas w h)) i j = sample io (real i + 1 / 2) (real j + 1 / 2)"
  by (simp add: drawImage_def drawImageScaled_def newCanvas_def centre_def inClip_def blend_one)

lemma spotArcs_path:
  "list_all (\<lambda>sp. 0 \<le> spot_radius sp) sps \<Longrightarrow>
   spotArcs sps c =
     Inr (c\<lparr>path := path c @ concat (map (spotSubpaths (canvas_width c) (canvas_height c)) sps)\<rparr>)"
proof (induction sps arbitrary: c)
  case Nil
  then show ?case by simp
next
  case (Cons sp sps)
  from Cons.prems have r: "0 \<le> spot_radius sp"
    and rest: "list_all (\<lambda>sp. 0 \<le> spot_radius sp) sps"
    by simp_all
  have nonneg: "\<not> (spot_radius sp / 100) * real (canvas_width c) < 0"
    using r by (simp add: not_less)
  show ?case
    using nonneg by (simp add: Let_def arc_def moveTo_def Cons.IH [OF rest] spotSubpaths_def)
qed





lemma applyMask_manual:
  assumes "retouchMode ed = Manual" and "spots ed \<noteq> []"
    and "list_all (\<lambda>sp. 0 \<le> spot_radius sp) (spots ed)"
  shows "applyMask ed c =
     Inr (c\<lparr>path := concat (map (spotSubpaths (canvas_width c) (canvas_height c)) (spots ed)),
            clipRegion := concat (map (spotSubpaths (canvas_width c) (canvas_height c)) (spots ed))
                          # clipRegion c\<rparr>)"
  using assms by (simp add: applyMask_def spotArcs_path beginPath_def clip_def)

lemma applyMask_manual_empty:
  assumes "retouchMode ed = Manual" and "spots ed = []"
  shows "applyMask ed c =
     Inr (c\<lparr>path := [RectPath 0 0 0 0], clipRegion := [RectPath 0 0 0 0] # clipRegion c\<rparr>)"
  using assms by (simp add: applyMask_def beginPath_def clip_def rect_path_def)

lemma applyMask_auto: "retouchMode ed = Auto \<Longrightarrow> applyMask ed c = Inr c"
  by (simp add: applyMask_def)

lemma applyMask_total:
  assumes "list_all (\<lambda>sp. 0 \<le> spot_radius sp) (spots ed)"
  shows "\<exists>c4. applyMask ed c = Inr c4 \<and> canvas_width c4 = canvas_width c
            \<and> canvas_height c4 = canvas_height c \<and> raster c4 = raster c
            \<and> globalAlpha c4 = globalAlpha c \<and> stack c4 = stack c
            \<and> (retouchMode ed = Auto \<longrightarrow> clipRegion c4 = clipRegion c)"
proof (cases "retouchMode ed")
  case Auto
  then show ?thesis by (simp add: applyMask_auto)
next
  case Manual
  show ?thesis
  proof (cases "spots ed = []")
    case True
    then show ?thesis using Manual by (simp add: applyMask_manual_empty)
  next
    case False
    then show ?thesis using Manual assms by (simp add: applyMask_manual)
  qed
qed

lemma restore_fields:
  "raster (restore c) = raster c" "canvas_width (restore c) = canvas_width c"
  "canvas_height (restore c) = canvas_height c"
  by (simp_all add: restore_def split: list.splits prod.splits)

lemma drawImageScaled_fields:
  "canvas_width (drawImageScaled img dx dy dw dh c) = canvas_width c"
  "canvas_height (drawImageScaled img dx dy dw dh c) = canvas_height c"
  by (simp_all add: drawImageScaled_def)

lemma drawImageScaled_full_pixel:
  assumes "i < canvas_width c" and "j < canvas_height c"
    and "0 < naturalWidth ip" and "0 < naturalHeight ip"
  shows "raster (drawImageScaled ip 0 0 (real (canvas_width c)) (real (canvas_height c)) c) i j =
     (if inClip c (centre i j)
      then blend (globalAlpha c)
             (sample ip ((real i + 1 / 2) * real (naturalWidth ip) / real (canvas_width c))
                        ((real j + 1 / 2) * real (naturalHeight ip) / real (canvas_height c)))
             (raster c i j)
      else raster c i j)"
  using assms by (simp add: drawImageScaled_def centre_def)

lemma drawImageScaled_outside_clip:
  assumes "\<And>p. \<not> inClip c p"
  shows "raster (drawImageScaled ip dx dy dw dh c) = raster c"
  using assms by (auto simp: drawImageScaled_def fun_eq_iff split: prod.splits)

lemma handleDownload_decoded:
  assumes "originalImage app = Some osrc" and "processedImage app = Some psrc"
    and "decode env osrc = Some io" and "decode env psrc = Some ip"
  shows "handleDownload env app ed = (app, compose (hasContext env) ed io ip)"
  using assms by (simp add: handleDownload_def)

lemma compose_masked:
  assumes "applyMask ed (prepareSurface ed io) = Inr c4"
  shows "compose True ed io ip =
     Downloaded \<lparr>fileName = ''dermafix-retouched.jpg'',
       href = \<lparr>enc_type = ''image/jpeg'', enc_quality = 92 / 100,
               enc_width = canvas_width c4, enc_height = canvas_height c4,
               enc_raster = raster (drawImageScaled ip 0 0 (real (canvas_width c4))
                                      (real (canvas_height c4)) c4)\<rparr>\<rparr>"
  using assms
  by (simp add: compose_def Let_def toDataURL_def restore_fields drawImageScaled_fields)





text \<open>
  C4. When both images decode, the exported raster has the natural width and height of
  the original, whatever the size of the processed image; and the processed image is
  drawn over the whole surface, each axis scaled on its own: the pixel \<open>(i, j)\<close>
  receives, inside the clip region (everywhere in Auto mode), the colour of the processed
  image at \<open>((i + 1/2) * pw / w, (j + 1/2) * ph / h)\<close>, blended over the original by
  the intensity.
\<close>

theorem C4_export_dimensions:
  assumes "originalImage app = Some osrc" and "processedImage app = Some psrc"
    and "decode env osrc = Some io" and "decode env psrc = Some ip"
    and "hasContext env"
    and "list_all (\<lambda>sp. 0 \<le> spot_radius sp) (spots ed)"
  shows "\<exists>d c4. snd (handleDownload env app ed) = Downloaded d
           \<and> applyMask ed (prepareSurface ed io) = Inr c4
           \<and> enc_width (href d) = naturalWidth io
           \<and> enc_height (href d) = naturalHeight io
           \<and> (retouchMode ed = Auto \<longrightarrow> (\<forall>p. inClip c4 p))
           \<and> (0 \<le> intensity ed \<and> intensity ed \<le> 100
                \<and> 0 < naturalWidth ip \<and> 0 < naturalHeight ip
              \<longrightarrow> (\<forall>i j. i < naturalWidth io \<and> j < naturalHeight io \<longrightarrow>
                    enc_raster (href d) i j =
                      (if inClip c4 (centre i j)
                       then blend (real_of_int (intensity ed) / 100)
                              (sample ip
                                 ((real i + 1 / 2) * real (naturalWidth ip) / real (naturalWidth io))
                                 ((real j + 1 / 2) * real (naturalHeight ip) / real (naturalHeight io)))
                              (sample io (real i + 1 / 2) (real j + 1 / 2))
                       else sample io (real i + 1 / 2) (real j + 1 / 2))))"
proof -
  let ?c3 = "prepareSurface ed io"
  from applyMask_total [OF assms(6), of ?c3] obtain c4 where
    m: "applyMask ed ?c3 = Inr c4"
    and w: "canvas_width c4 = naturalWidth io" and h: "canvas_height c4 = naturalHeight io"
    and r: "raster c4 = raster ?c3" and a: "globalAlpha c4 = globalAlpha ?c3"
    and au: "retouchMode ed = Auto \<longrightarrow> clipRegion c4 = []"
    by (auto simp: prepareSurface_fields)
  let ?d = "\<lparr>fileName = ''dermafix-retouched.jpg'',
       href = \<lparr>enc_type = ''image/jpeg'', enc_quality = 92 / 100,
               enc_width = canvas_width c4, enc_height = canvas_height c4,
               enc_raster = raster (drawImageScaled ip 0 0 (real (canvas_width c4))
                                      (real (canvas_height c4)) c4)\<rparr>\<rparr>"
  have d: "snd (handleDownload env app ed) = Downloaded ?d"
    using handleDownload_decoded [OF assms(1-4), of ed] assms(5) compose_masked [OF m, of ip]
    by simp
  have auto_clip: "retouchMode ed = Auto \<longrightarrow> (\<forall>p. inClip c4 p)"
    using au by (simp add: inClip_Nil)
  have pixels: "enc_raster (href ?d) i j =
      (if inClip c4 (centre i j)
       then blend (real_of_int (intensity ed) / 100)
              (sample ip ((real i + 1 / 2) * real (naturalWidth ip) / real (naturalWidth io))
                         ((real j + 1 / 2) * real (naturalHeight ip) / real (naturalHeight io)))
              (sample io (real i + 1 / 2) (real j + 1 / 2))
       else sample io (real i + 1 / 2) (real j + 1 / 2))"
    if int: "0 \<le> intensity ed" "intensity ed \<le> 100"
      and ip: "0 < naturalWidth ip" "0 < naturalHeight ip"
      and ij: "i < naturalWidth io" "j < naturalHeight io" for i j
  proof -
    have base: "raster c4 i j = sample io (real i + 1 / 2) (real j + 1 / 2)"
      using ij by (simp add: r prepareSurface_fields drawImage_new_pixel)
    have alpha: "globalAlpha c4 = real_of_int (intensity ed) / 100"
      using int by (simp add: a prepareSurface_alpha)
    have "i < canvas_width c4" and "j < canvas_height c4"
      using ij w h by simp_all
    from drawImageScaled_full_pixel [OF this ip] show ?thesis
      by (simp add: base alpha w h)
  qed
  show ?thesis
    using d m w h auto_clip pixels by (intro exI [of _ ?d] exI [of _ c4]) simp
qed

theorem C4_export_dimensions_witness:
  "originalImage appB = Some srcO \<and> processedImage appB = Some srcP
   \<and> decode envA srcO = Some imgO \<and> decode envA srcP = Some imgP \<and> hasContext envA
   \<and> list_all (\<lambda>sp. 0 \<le> spot_radius sp) (spots editor_init)
   \<and> retouchMode editor_init = Auto
   \<and> 0 \<le> intensity editor_init \<and> intensity editor_init \<le> 100
   \<and> 0 < naturalWidth imgP \<and> 0 < naturalHeight imgP
   \<and> (3::nat) < naturalWidth imgO \<and> (4::nat) < naturalHeight imgO
   \<and> naturalWidth imgP = 2 \<and> naturalHeight imgP = 3
   \<and> (\<exists>d. snd (handleDownload envA appB editor_init) = Downloaded d
          \<and> enc_width (href d) = 10 \<and> enc_height (href d) = 10
          \<and> enc_raster (href d) 3 4 = (2, 12 / 5, 3 / 5))"
proof -
  have h1: "originalImage appB = Some srcO" and h2: "processedImage appB = Some srcP"
    by (simp_all add: appB_def)
  have h3: "decode envA srcO = Some imgO" and h4: "decode envA srcP = Some imgP"
    and h5: "hasContext envA"
    by (simp_all add: envA_def srcO_def srcP_def)
  have h6: "list_all (\<lambda>sp. 0 \<le> spot_radius sp) (spots editor_init)"
    and h7: "retouchMode editor_init = Auto"
    and h8: "0 \<le> intensity editor_init \<and> intensity editor_init \<le> 100" "intensity editor_init = 60"
    by (simp_all add: editor_init_def)
  have h9: "0 < naturalWidth imgP \<and> 0 < naturalHeight imgP"
    and p: "naturalWidth imgP = 2" "naturalHeight imgP = 3" "sample imgP = (\<lambda>x y. (1, 1, 1))"
    by (simp_all add: imgP_def)
  have h10: "(3::nat) < naturalWidth imgO \<and> (4::nat) < naturalHeight imgO"
    and o: "naturalWidth imgO = 10" "naturalHeight imgO = 10" "sample imgO = (\<lambda>x y. (x, y, 0))"
    by (simp_all add: imgO_def)
  from C4_export_dimensions [OF h1 h2 h3 h4 h5 h6] obtain d c4 where
    d: "snd (handleDownload envA appB editor_init) = Downloaded d"
    and w: "enc_width (href d) = naturalWidth imgO" "enc_height (href d) = naturalHeight imgO"
    and c: "\<And>p. inClip c4 p"
    and px: "\<And>i j. i < naturalWidth imgO \<and> j < naturalHeight imgO \<Longrightarrow>
          enc_raster (href d) i j =
            (if inClip c4 (centre i j)
             then blend (real_of_int (intensity editor_init) / 100)
                    (sample imgP
                       ((real i + 1 / 2) * real (naturalWidth imgP) / real (naturalWidth imgO))
                       ((real j + 1 / 2) * real (naturalHeight imgP) / real (naturalHeight imgO)))
                    (sample imgO (real i + 1 / 2) (real j + 1 / 2))
             else sample imgO (real i + 1 / 2) (real j + 1 / 2))"
    using h7 h8(1) h9 by blast
  have "enc_raster (href d) 3 4 = (2, 12 / 5, 3 / 5)"
    using px [of 3 4] h10 by (simp add: c h8(2) p o blend_def)
  then show ?thesis
    using h1 h2 h3 h4 h5 h6 h7 h8(1) h9 h10 p(1,2) d w o(1,2) by auto
qed

lemma handleDownload_decode_failure:
  assumes "originalImage app = Some osrc" and "processedImage app = Some psrc"
    and "decode env osrc = None \<or> decode env psrc = None"
  shows "handleDownload env app ed = (app, Pending)"
  using assms by (auto simp: handleDownload_def split: option.splits)

text \<open>
  C5 states that a failure to decode either image aborts the export with an error
  message the user sees, that no file is produced and that nothing is retried.
  \<open>loadImg\<close> settles its promise in \<open>onload\<close> only. Here the retouch call has
  returned a payload that is no image: the session holds it as the processed image, the
  export is started, the processed image does not decode, and the call stays pending; no
  file is produced, and the session holds no error message.
\<close>

theorem C5_decode_failure_pending:
  "handleProcessImage echoResponse appA = appB
   \<and> originalImage appB = Some srcO \<and> processedImage appB = Some srcP
   \<and> decode envBroken srcO = Some imgO \<and> decode envBroken srcP = None
   \<and> snd (handleDownload envBroken appB editor_init) = Pending
   \<and> error (fst (handleDownload envBroken appB editor_init)) = None"
  by (simp add: handleDownload_def handleProcessImage_def processFaceImage_def
       echoResponse_def getMimeType_def substring_def dataUrlOf_def Let_def
       appA_def appB_def app_init_def envBroken_def srcO_def srcP_def)

text \<open>
  C6. In Manual mode with no spot, the export clips to a region that covers no point, so
  no pixel of the processed image is drawn: the exported raster is that of the surface
  on which only the original was drawn.
\<close>

theorem C6_manual_no_spots_export:
  assumes "originalImage app = Some osrc" and "processedImage app = Some psrc"
    and "decode env osrc = Some io" and "decode env psrc = Some ip"
    and "hasContext env"
    and "retouchMode ed = Manual" and "spots ed = []"
  shows "\<exists>d c4. snd (handleDownload env app ed) = Downloaded d
           \<and> applyMask ed (prepareSurface ed io) = Inr c4
           \<and> (\<forall>p. \<not> inClip c4 p)
           \<and> enc_raster (href d)
               = raster (drawImage io 0 0 (newCanvas (naturalWidth io) (naturalHeight io)))
           \<and> (\<forall>i j. i < naturalWidth io \<and> j < naturalHeight io \<longrightarrow>
                 enc_raster (href d) i j = sample io (real i + 1 / 2) (real j + 1 / 2))"
proof -
  let ?c3 = "prepareSurface ed io"
  let ?c4 = "?c3\<lparr>path := [RectPath 0 0 0 0], clipRegion := [RectPath 0 0 0 0] # clipRegion ?c3\<rparr>"
  have m: "applyMask ed ?c3 = Inr ?c4"
    using assms(6,7) by (rule applyMask_manual_empty)
  have empty: "\<not> inClip ?c4 p" for p
    by (cases p) (simp add: inClip_def inPath_def)
  have "snd (handleDownload env app ed) = compose True ed io ip"
    using handleDownload_decoded [OF assms(1-4), of ed] assms(5) by simp
  then have d: "snd (handleDownload env app ed) =
     Downloaded \<lparr>fileName = ''dermafix-retouched.jpg'',
       href = \<lparr>enc_type = ''image/jpeg'', enc_quality = 92 / 100,
               enc_width = canvas_width ?c4, enc_height = canvas_height ?c4,
               enc_raster = raster (drawImageScaled ip 0 0 (real (canvas_width ?c4))
                                      (real (canvas_height ?c4)) ?c4)\<rparr>\<rparr>"
    using compose_masked [OF m, of ip] by simp
  have r: "raster (drawImageScaled ip 0 0 (real (canvas_width ?c4)) (real (canvas_height ?c4)) ?c4)
           = raster (drawImage io 0 0 (newCanvas (naturalWidth io) (naturalHeight io)))"
    using drawImageScaled_outside_clip [of ?c4 ip, OF empty]
    by (simp add: prepareSurface_fields)
  show ?thesis
    using d m empty r
    by (intro exI [of _ "\<lparr>fileName = ''dermafix-retouched.jpg'',
       href = \<lparr>enc_type = ''image/jpeg'', enc_quality = 92 / 100,
               enc_width = canvas_width ?c4, enc_height = canvas_height ?c4,
               enc_raster = raster (drawImageScaled ip 0 0 (real (canvas_width ?c4))
                                      (real (canvas_height ?c4)) ?c4)\<rparr>\<rparr>"] exI [of _ ?c4])
       (simp add: drawImage_new_pixel)
qed

theorem C6_manual_no_spots_export_witness:
  "originalImage appB = Some srcO \<and> processedImage appB = Some srcP
   \<and> decode envA srcO = Some imgO \<and> decode envA srcP = Some imgP \<and> hasContext envA
   \<and> retouchMode edManualEmpty = Manual \<and> spots edManualEmpty = []
   \<and> (3::nat) < naturalWidth imgO \<and> (4::nat) < naturalHeight imgO
   \<and> (\<exists>d. snd (handleDownload envA appB edManualEmpty) = Downloaded d
          \<and> enc_raster (href d) 3 4 = (7 / 2, 9 / 2, 0))"
proof -
  have h1: "originalImage appB = Some srcO" and h2: "processedImage appB = Some srcP"
    by (simp_all add: appB_def)
  have h3: "decode envA srcO = Some imgO" and h4: "decode envA srcP = Some imgP"
    and h5: "hasContext envA"
    by (simp_all add: envA_def srcO_def srcP_def)
  have h6: "retouchMode edManualEmpty = Manual" and h7: "spots edManualEmpty = []"
    by (simp_all add: edManualEmpty_def editor_init_def)
  have h8: "(3::nat) < naturalWidth imgO \<and> (4::nat) < naturalHeight imgO"
    and o: "sample imgO = (\<lambda>x y. (x, y, 0))"
    by (simp_all add: imgO_def)
  from C6_manual_no_spots_export [OF h1 h2 h3 h4 h5 h6 h7] obtain d where
    d: "snd (handleDownload envA appB edManualEmpty) = Downloaded d"
    and px: "\<And>i j. i < naturalWidth imgO \<and> j < naturalHeight imgO \<Longrightarrow>
          enc_raster (href d) i j = sample imgO (real i + 1 / 2) (real j + 1 / 2)"
    by blast
  have "enc_raster (href d) 3 4 = (7 / 2, 9 / 2, 0)"
    using px [of 3 4] h8 by (simp add: o)
  then show ?thesis
    using h1 h2 h3 h4 h5 h6 h7 h8 d by auto
qed


end
